theory Spec2Isabelle
  imports Complex_Main
begin

section \<open>JavaScript dates\<close>

text \<open>
  A JavaScript \<^verbatim>\<open>Date\<close> holds a time value: a whole number of milliseconds since the
  epoch, or \<^verbatim>\<open>NaN\<close> (an "Invalid Date"). The time value is modelled as \<open>int option\<close>,
  \<open>None\<close> being \<^verbatim>\<open>NaN\<close>. Every time value and every offset used below is an
  integer of magnitude below \<open>2 ^ 53\<close>, where the arithmetic of doubles is exact, so
  \<^verbatim>\<open>getTime() - 35 * 60000\<close> is integer subtraction, and \<^verbatim>\<open>NaN\<close> propagates.

  The constructor \<^verbatim>\<open>new Date(v)\<close> stores \<^verbatim>\<open>TimeClip(v)\<close>: a value of magnitude above
  \<open>8.64e15\<close> milliseconds (100 000 000 days) becomes \<^verbatim>\<open>NaN\<close>.
\<close>

datatype Date = DateValue (getTime: "int option")

definition maxTime :: int where
  "maxTime = 8640000000000000"

definition TimeClip :: "int option \<Rightarrow> int option" where
  "TimeClip v = (case v of
       None \<Rightarrow> None
     | Some t \<Rightarrow> if \<bar>t\<bar> > maxTime then None else Some t)"

definition new_Date :: "int option \<Rightarrow> Date" where
  "new_Date v = DateValue (TimeClip v)"

text \<open>\<^verbatim>\<open>x - k\<close> and \<^verbatim>\<open>x + k\<close> on a number that may be \<^verbatim>\<open>NaN\<close>.\<close>

definition minus_ms :: "int option \<Rightarrow> int \<Rightarrow> int option" where
  "minus_ms v k = map_option (\<lambda>t. t - k) v"

definition plus_ms :: "int option \<Rightarrow> int \<Rightarrow> int option" where
  "plus_ms v k = map_option (\<lambda>t. t + k) v"

text \<open>
  \<^verbatim>\<open>a < b\<close> on two dates compares the time values as numbers; a comparison with
  \<^verbatim>\<open>NaN\<close> is false.
\<close>

definition date_less :: "Date \<Rightarrow> Date \<Rightarrow> bool" where
  "date_less a b = (case getTime a of
       None \<Rightarrow> False
     | Some x \<Rightarrow> (case getTime b of None \<Rightarrow> False | Some y \<Rightarrow> x < y))"

text \<open>A date is an instant when it is not the Invalid Date and lies in the range of \<^verbatim>\<open>Date\<close>.\<close>

definition instant :: "Date \<Rightarrow> bool" where
  "instant d = (case getTime d of None \<Rightarrow> False | Some t \<Rightarrow> \<bar>t\<bar> \<le> maxTime)"

section \<open>Schedules\<close>

text \<open>
  The two components declare
  \<^verbatim>\<open>type Schedule = { wakeTime; civilDawn; sunrise; sunset; civilDusk; bedTime }\<close>
  (\<^verbatim>\<open>src/SunSchedule.tsx\<close>, the basic variant) and
  \<^verbatim>\<open>type Schedule = { wakeTime; civilDawn; sunrise; sunset; civilDusk; toddlerBedTime; adultBedTime }\<close>
  (the variant that persists the postal code). The five shared fields are a common
  record that each variant extends.
\<close>

record walk_times =
  wakeTime :: Date
  civilDawn :: Date
  sunrise :: Date
  sunset :: Date
  civilDusk :: Date

record Schedule_basic = walk_times +
  bedTime :: Date

record Schedule = walk_times +
  toddlerBedTime :: Date
  adultBedTime :: Date

text \<open>
  The body of \<^verbatim>\<open>if (data.status === 'OK')\<close> in \<^verbatim>\<open>fetchSunData\<close>, from the two
  parsed dates to the object passed to \<^verbatim>\<open>setSchedule\<close>. The offsets are written as
  the source writes them; \<^verbatim>\<open>2.5 * 60 * 60000\<close> is the integer \<open>9000000\<close>.

  Basic variant:
  \<^verbatim>\<open>
  const civilDawn = new Date(sunriseTime.getTime() - 35 * 60000);
  const civilDusk = new Date(sunsetTime.getTime() + 35 * 60000);
  const wakeTime = new Date(civilDawn.getTime() - 45 * 60000);
  const bedTime = new Date(sunsetTime.getTime() + 2.5 * 60 * 60000);
  \<close>
\<close>

definition deriveSchedule_basic :: "Date \<Rightarrow> Date \<Rightarrow> Schedule_basic" where
  "deriveSchedule_basic sunriseTime sunsetTime =
     (let civilDawn' = new_Date (minus_ms (getTime sunriseTime) (35 * 60000));
          civilDusk' = new_Date (plus_ms (getTime sunsetTime) (35 * 60000));
          wakeTime' = new_Date (minus_ms (getTime civilDawn') (45 * 60000));
          bedTime' = new_Date (plus_ms (getTime sunsetTime) 9000000)
      in \<lparr> wakeTime = wakeTime', civilDawn = civilDawn', sunrise = sunriseTime,
           sunset = sunsetTime, civilDusk = civilDusk', bedTime = bedTime' \<rparr>)"

text \<open>
  Persisted variant:
  \<^verbatim>\<open>
  const civilDawn = new Date(sunriseTime.getTime() - 35 * 60000);
  const civilDusk = new Date(sunsetTime.getTime() + 35 * 60000);
  const wakeTime = new Date(civilDawn.getTime() - 45 * 60000);
  const adultBedTime = new Date(sunsetTime.getTime() + 2.5 * 60 * 60000);
  const toddlerBedTime = new Date(wakeTime.getTime() - 11 * 60 * 60 * 1000);
  \<close>
\<close>

definition deriveSchedule :: "Date \<Rightarrow> Date \<Rightarrow> Schedule" where
  "deriveSchedule sunriseTime sunsetTime =
     (let civilDawn' = new_Date (minus_ms (getTime sunriseTime) (35 * 60000));
          civilDusk' = new_Date (plus_ms (getTime sunsetTime) (35 * 60000));
          wakeTime' = new_Date (minus_ms (getTime civilDawn') (45 * 60000));
          adultBedTime' = new_Date (plus_ms (getTime sunsetTime) 9000000);
          toddlerBedTime' = new_Date (minus_ms (getTime wakeTime') (11 * 60 * 60 * 1000))
      in \<lparr> wakeTime = wakeTime', civilDawn = civilDawn', sunrise = sunriseTime,
           sunset = sunsetTime, civilDusk = civilDusk',
           toddlerBedTime = toddlerBedTime', adultBedTime = adultBedTime' \<rparr>)"

text \<open>Minutes as milliseconds, and a wall-clock time of the day that starts at \<open>d\<close>.\<close>

definition minutes :: "int \<Rightarrow> int" where
  "minutes n = n * 60000"

definition clock :: "int \<Rightarrow> int \<Rightarrow> int \<Rightarrow> Date" where
  "clock d h m = DateValue (Some (d + minutes (h * 60 + m)))"

section \<open>External collaborators\<close>

text \<open>
  What a \<^verbatim>\<open>catch\<close> clause receives. Both handlers show
  \<^verbatim>\<open>err instanceof Error ? err.message : 'An error occurred'\<close>.
\<close>

datatype thrown = Error (message: string) | NotAnError

definition error_text :: "thrown \<Rightarrow> string" where
  "error_text err = (case err of Error m \<Rightarrow> m | NotAnError \<Rightarrow> ''An error occurred'')"

text \<open>
  The postal-code service answers \<^verbatim>\<open>{ places?: [...] }\<close>. \<open>ZipFails e\<close> stands for
  every way the two awaited calls \<^verbatim>\<open>fetch\<close> and \<^verbatim>\<open>response.json()\<close> throw \<open>e\<close>
  (no network, a body that is not JSON).
\<close>

record place =
  latitude :: string
  longitude :: string
  place_name :: string
  state :: string

datatype zip_reply = ZipFails thrown | ZipJson "place list option"

text \<open>
  The sunrise/sunset service answers \<^verbatim>\<open>{ status; results: { sunrise; sunset } }\<close>.
  \<open>SunFails e\<close> stands for every way the \<^verbatim>\<open>try\<close> block of \<^verbatim>\<open>fetchSunData\<close> throws
  \<open>e\<close>: a rejected \<^verbatim>\<open>fetch\<close>, a body that is not JSON, a reply without the object
  \<^verbatim>\<open>results\<close> under the status \<^verbatim>\<open>'OK'\<close>. With another status \<^verbatim>\<open>results\<close> is never
  read.
\<close>

record sun_results =
  results_sunrise :: string
  results_sunset :: string

datatype sun_reply = SunFails thrown | SunJson string sun_results

text \<open>
  \<^verbatim>\<open>navigator.geolocation.getCurrentPosition\<close> calls back once, with a position or
  with an error; \<open>GeoThrows e\<close> is the executor of the promise throwing \<open>e\<close>.
  Coordinates are JavaScript numbers of a type \<open>'n\<close> that the components only pass on.
\<close>

datatype 'n geo_reply = GeoPosition 'n 'n | GeoDenied | GeoThrows thrown

text \<open>
  \<^verbatim>\<open>localStorage.setItem(key, value)\<close> stores the value, or throws and stores nothing
  (a storage that is full or blocked). \<open>setItem env key value\<close> is what the call throws,
  \<open>None\<close> when the write is accepted.
\<close>

record 'n env =
  getCurrentPosition :: "'n geo_reply"
  zippopotam :: "string \<Rightarrow> zip_reply"
  sunrise_sunset :: "'n \<Rightarrow> 'n \<Rightarrow> sun_reply"
  parseFloat :: "string \<Rightarrow> 'n"
  Date_parse :: "string \<Rightarrow> int option"
  setItem :: "string \<Rightarrow> string \<Rightarrow> thrown option"

text \<open>
  \<^verbatim>\<open>new Date(s)\<close> on a string: the time value that parsing gives (\<^verbatim>\<open>NaN\<close> for a string
  that is not a date), clipped.
\<close>

definition new_Date_string :: "'n env \<Rightarrow> string \<Rightarrow> Date" where
  "new_Date_string env s = new_Date (Date_parse env s)"

text \<open>The requests a component has sent to its collaborators, oldest first.\<close>

datatype 'n request = GeoRequest | ZipRequest string | SunRequest 'n 'n

section \<open>Component state\<close>

text \<open>
  The \<^verbatim>\<open>useState\<close> cells of \<^verbatim>\<open>SunSchedule\<close>. The basic variant has the first five;
  the persisted variant adds \<^verbatim>\<open>location\<close> and uses \<^verbatim>\<open>localStorage\<close>, a map from
  keys to values that can always be read and whose writes the environment accepts or
  rejects. \<open>requests\<close> is not a cell of the component: it records the requests sent, so
  that "a request is made" can be stated.

  An \<^verbatim>\<open>async\<close> handler is one transition, from the state at its call to the state once
  its promise has settled, with the replies of the collaborators taken from an
  environment. No other handler runs in between (the form is disabled while loading),
  and a collaborator that never answers is not modelled.
\<close>

record ('n, 'sch) view =
  schedule :: "'sch option"
  loading :: bool
  error :: "string option"
  zipCode :: string
  useZipCode :: bool
  requests :: "'n request list"

record ('n, 'sch) persisted_view = "('n, 'sch) view" +
  location :: string
  localStorage :: "string \<rightharpoonup> string"

definition ZIP_STORAGE_KEY :: string where
  "ZIP_STORAGE_KEY = ''lastUsedZipCode''"

definition initial_basic :: "('n, Schedule_basic) view" where
  "initial_basic = \<lparr> schedule = None, loading = True, error = None, zipCode = [],
     useZipCode = False, requests = [] \<rparr>"

definition initial :: "(string \<rightharpoonup> string) \<Rightarrow> ('n, Schedule) persisted_view" where
  "initial store = \<lparr> schedule = None, loading = True, error = None, zipCode = [],
     useZipCode = False, requests = [], location = [], localStorage = store \<rparr>"

section \<open>The basic variant (\<^verbatim>\<open>src/SunSchedule.tsx\<close>)\<close>

text \<open>
  \<^verbatim>\<open>
  try {
    const response = await fetch(`https://api.zippopotam.us/us/${zip}`);
    const data: ZipResponse = await response.json();
    if (!data.places || data.places.length === 0) { throw new Error('Invalid zip code'); }
    return { latitude: parseFloat(data.places[0].latitude),
             longitude: parseFloat(data.places[0].longitude) };
  } catch (err) { throw new Error('Invalid zip code. Please try again.'); }
  \<close>
\<close>

definition fetchZipCodeLocation_try_basic :: "'n env \<Rightarrow> zip_reply \<Rightarrow> thrown + 'n \<times> 'n" where
  "fetchZipCodeLocation_try_basic env reply =
     (case reply of
        ZipFails e \<Rightarrow> Inl e
      | ZipJson None \<Rightarrow> Inl (Error ''Invalid zip code'')
      | ZipJson (Some []) \<Rightarrow> Inl (Error ''Invalid zip code'')
      | ZipJson (Some (p # ps)) \<Rightarrow>
          Inr (parseFloat env (latitude p), parseFloat env (longitude p)))"

definition fetchZipCodeLocation_basic ::
  "'n env \<Rightarrow> string \<Rightarrow> ('n, Schedule_basic) view
     \<Rightarrow> (thrown + 'n \<times> 'n) \<times> ('n, Schedule_basic) view" where
  "fetchZipCodeLocation_basic env zp v =
     (let v1 = v\<lparr> requests := requests v @ [ZipRequest zp] \<rparr> in
      case fetchZipCodeLocation_try_basic env (zippopotam env zp) of
        Inl err \<Rightarrow> (Inl (Error ''Invalid zip code. Please try again.''), v1)
      | Inr r \<Rightarrow> (Inr r, v1))"

text \<open>
  \<^verbatim>\<open>
  try {
    const response = await fetch(...);
    const data: SunResponse = await response.json();
    if (data.status === 'OK') {
      const sunriseTime = new Date(data.results.sunrise);
      const sunsetTime = new Date(data.results.sunset);
      ...
      setSchedule({ ... });
      setError(null);
    }
  } catch (err) { throw new Error('Failed to fetch sun data. Please try again.'); }
  \<close>
  The result is the error thrown, if any, and the state.
\<close>

definition fetchSunData_basic ::
  "'n env \<Rightarrow> 'n \<Rightarrow> 'n \<Rightarrow> ('n, Schedule_basic) view
     \<Rightarrow> thrown option \<times> ('n, Schedule_basic) view" where
  "fetchSunData_basic env lat lng v =
     (let v1 = v\<lparr> requests := requests v @ [SunRequest lat lng] \<rparr> in
      case sunrise_sunset env lat lng of
        SunFails e \<Rightarrow> (Some (Error ''Failed to fetch sun data. Please try again.''), v1)
      | SunJson status results \<Rightarrow>
          if status = ''OK'' then
            (let sunriseTime = new_Date_string env (results_sunrise results);
                 sunsetTime = new_Date_string env (results_sunset results)
             in (None, v1\<lparr> schedule := Some (deriveSchedule_basic sunriseTime sunsetTime),
                           error := None \<rparr>))
          else (None, v1))"

text \<open>
  \<^verbatim>\<open>
  e.preventDefault();
  setLoading(true);
  try {
    const { latitude, longitude } = await fetchZipCodeLocation(zipCode);
    await fetchSunData(latitude, longitude);
  } catch (err) { setError(err instanceof Error ? err.message : 'An error occurred'); }
  finally { setLoading(false); }
  \<close>
\<close>

definition handleZipCodeSubmit_basic ::
  "'n env \<Rightarrow> ('n, Schedule_basic) view \<Rightarrow> ('n, Schedule_basic) view" where
  "handleZipCodeSubmit_basic env v =
     (let v1 = v\<lparr> loading := True \<rparr>;
          v2 = (case fetchZipCodeLocation_basic env (zipCode v1) v1 of
                  (Inl err, v') \<Rightarrow> v'\<lparr> error := Some (error_text err) \<rparr>
                | (Inr (lat, lng), v') \<Rightarrow>
                    (case fetchSunData_basic env lat lng v' of
                       (Some err, v'') \<Rightarrow> v''\<lparr> error := Some (error_text err) \<rparr>
                     | (None, v'') \<Rightarrow> v''))
      in v2\<lparr> loading := False \<rparr>)"

text \<open>
  \<^verbatim>\<open>
  try {
    const position = await new Promise((resolve, reject) => {
      navigator.geolocation.getCurrentPosition(resolve, (err) => {
        reject(new Error('Location access denied. Please enter your zip code.')); }); });
    await fetchSunData(position.coords.latitude, position.coords.longitude);
  } catch (err) {
    setError(err instanceof Error ? err.message : 'An error occurred');
    setUseZipCode(true);
  } finally { setLoading(false); }
  \<close>
\<close>

definition getLocationAndSunData_basic ::
  "'n env \<Rightarrow> ('n, Schedule_basic) view \<Rightarrow> ('n, Schedule_basic) view" where
  "getLocationAndSunData_basic env v =
     (let v1 = v\<lparr> requests := requests v @ [GeoRequest] \<rparr>;
          v2 = (case getCurrentPosition env of
                  GeoDenied \<Rightarrow>
                    v1\<lparr> error := Some (error_text
                           (Error ''Location access denied. Please enter your zip code.'')),
                        useZipCode := True \<rparr>
                | GeoThrows err \<Rightarrow> v1\<lparr> error := Some (error_text err), useZipCode := True \<rparr>
                | GeoPosition lat lng \<Rightarrow>
                    (case fetchSunData_basic env lat lng v1 of
                       (Some err, v') \<Rightarrow>
                         v'\<lparr> error := Some (error_text err), useZipCode := True \<rparr>
                     | (None, v') \<Rightarrow> v'))
      in v2\<lparr> loading := False \<rparr>)"

section \<open>The persisted variant\<close>

text \<open>
  As in the basic variant, with the label
  \<^verbatim>\<open>`${data.places[0]['place name']}, ${data.places[0].state}`\<close> returned as
  \<^verbatim>\<open>location\<close>.
\<close>

definition fetchZipCodeLocation_try ::
  "'n env \<Rightarrow> zip_reply \<Rightarrow> thrown + 'n \<times> 'n \<times> string" where
  "fetchZipCodeLocation_try env reply =
     (case reply of
        ZipFails e \<Rightarrow> Inl e
      | ZipJson None \<Rightarrow> Inl (Error ''Invalid zip code'')
      | ZipJson (Some []) \<Rightarrow> Inl (Error ''Invalid zip code'')
      | ZipJson (Some (p # ps)) \<Rightarrow>
          Inr (parseFloat env (latitude p), parseFloat env (longitude p),
               place_name p @ '', '' @ state p))"

definition fetchZipCodeLocation ::
  "'n env \<Rightarrow> string \<Rightarrow> ('n, Schedule) persisted_view
     \<Rightarrow> (thrown + 'n \<times> 'n \<times> string) \<times> ('n, Schedule) persisted_view" where
  "fetchZipCodeLocation env zp v =
     (let v1 = v\<lparr> requests := requests v @ [ZipRequest zp] \<rparr> in
      case fetchZipCodeLocation_try env (zippopotam env zp) of
        Inl err \<Rightarrow> (Inl (Error ''Invalid zip code. Please try again.''), v1)
      | Inr r \<Rightarrow> (Inr r, v1))"

definition fetchSunData ::
  "'n env \<Rightarrow> 'n \<Rightarrow> 'n \<Rightarrow> ('n, Schedule) persisted_view
     \<Rightarrow> thrown option \<times> ('n, Schedule) persisted_view" where
  "fetchSunData env lat lng v =
     (let v1 = v\<lparr> requests := requests v @ [SunRequest lat lng] \<rparr> in
      case sunrise_sunset env lat lng of
        SunFails e \<Rightarrow> (Some (Error ''Failed to fetch sun data. Please try again.''), v1)
      | SunJson status results \<Rightarrow>
          if status = ''OK'' then
            (let sunriseTime = new_Date_string env (results_sunrise results);
                 sunsetTime = new_Date_string env (results_sunset results)
             in (None, v1\<lparr> schedule := Some (deriveSchedule sunriseTime sunsetTime),
                           error := None \<rparr>))
          else (None, v1))"

text \<open>
  \<^verbatim>\<open>
  const handleZipCodeSubmit = async (e, overrideZip?: string) => {
    e?.preventDefault();
    const zipToUse = overrideZip || zipCode;
    setLoading(true);
    try {
      const { latitude, longitude, location } = await fetchZipCodeLocation(zipToUse);
      await fetchSunData(latitude, longitude);
      localStorage.setItem(ZIP_STORAGE_KEY, zipToUse);
      setLocation(location);
    } catch (err) { setError(err instanceof Error ? err.message : 'An error occurred'); }
    finally { setLoading(false); }
  };
  \<close>
  An absent or empty \<^verbatim>\<open>overrideZip\<close> is falsy. \<^verbatim>\<open>setItem\<close> is inside the \<^verbatim>\<open>try\<close>: when
  it throws, the \<^verbatim>\<open>catch\<close> shows the message, nothing is stored and \<^verbatim>\<open>setLocation\<close> is
  not reached.
\<close>

definition zipToUse :: "string option \<Rightarrow> string \<Rightarrow> string" where
  "zipToUse overrideZip zipCode' =
     (case overrideZip of None \<Rightarrow> zipCode' | Some z \<Rightarrow> if z = [] then zipCode' else z)"

definition handleZipCodeSubmit ::
  "'n env \<Rightarrow> string option \<Rightarrow> ('n, Schedule) persisted_view
     \<Rightarrow> ('n, Schedule) persisted_view" where
  "handleZipCodeSubmit env overrideZip v =
     (let zp = zipToUse overrideZip (zipCode v);
          v1 = v\<lparr> loading := True \<rparr>;
          v2 = (case fetchZipCodeLocation env zp v1 of
                  (Inl err, v') \<Rightarrow> v'\<lparr> error := Some (error_text err) \<rparr>
                | (Inr (lat, lng, loc), v') \<Rightarrow>
                    (case fetchSunData env lat lng v' of
                       (Some err, v'') \<Rightarrow> v''\<lparr> error := Some (error_text err) \<rparr>
                     | (None, v'') \<Rightarrow>
                         (case setItem env ZIP_STORAGE_KEY zp of
                            Some err \<Rightarrow> v''\<lparr> error := Some (error_text err) \<rparr>
                          | None \<Rightarrow>
                              v''\<lparr> localStorage := (localStorage v'')(ZIP_STORAGE_KEY \<mapsto> zp),
                                   location := loc \<rparr>)))
      in v2\<lparr> loading := False \<rparr>)"

text \<open>
  As in the basic variant, followed on success by
  \<^verbatim>\<open>setLocation('Current Location')\<close>.
\<close>

definition getLocationAndSunData ::
  "'n env \<Rightarrow> ('n, Schedule) persisted_view \<Rightarrow> ('n, Schedule) persisted_view" where
  "getLocationAndSunData env v =
     (let v1 = v\<lparr> requests := requests v @ [GeoRequest] \<rparr>;
          v2 = (case getCurrentPosition env of
                  GeoDenied \<Rightarrow>
                    v1\<lparr> error := Some (error_text
                           (Error ''Location access denied. Please enter your zip code.'')),
                        useZipCode := True \<rparr>
                | GeoThrows err \<Rightarrow> v1\<lparr> error := Some (error_text err), useZipCode := True \<rparr>
                | GeoPosition lat lng \<Rightarrow>
                    (case fetchSunData env lat lng v1 of
                       (Some err, v') \<Rightarrow>
                         v'\<lparr> error := Some (error_text err), useZipCode := True \<rparr>
                     | (None, v') \<Rightarrow> v'\<lparr> location := ''Current Location'' \<rparr>))
      in v2\<lparr> loading := False \<rparr>)"

text \<open>
  The effect run once after the first render:
  \<^verbatim>\<open>
  const savedZip = localStorage.getItem(ZIP_STORAGE_KEY);
  if (savedZip) {
    setZipCode(savedZip);
    setUseZipCode(true);
    handleZipCodeSubmit(null, savedZip).catch(console.error);
  } else {
    getLocationAndSunData().catch(console.error);
  }
  \<close>
  \<^verbatim>\<open>getItem\<close> gives \<^verbatim>\<open>null\<close> for a missing key; \<^verbatim>\<open>null\<close> and the empty string are
  falsy. The handler called here still sees the \<^verbatim>\<open>zipCode\<close> of the first render, which
  it does not read, \<^verbatim>\<open>overrideZip\<close> being truthy.
\<close>

definition useEffect ::
  "'n env \<Rightarrow> ('n, Schedule) persisted_view \<Rightarrow> ('n, Schedule) persisted_view" where
  "useEffect env v =
     (case localStorage v ZIP_STORAGE_KEY of
        None \<Rightarrow> getLocationAndSunData env v
      | Some savedZip \<Rightarrow>
          if savedZip = [] then getLocationAndSunData env v
          else handleZipCodeSubmit env (Some savedZip)
                 (v\<lparr> zipCode := savedZip, useZipCode := True \<rparr>))"

section \<open>The manual-entry form\<close>

text \<open>\<^verbatim>\<open>disabled={loading || zipCode.length !== 5}\<close> on the submit button.\<close>

definition submit_disabled :: "('n, 'sch, 'z) view_scheme \<Rightarrow> bool" where
  "submit_disabled v = (loading v \<or> length (zipCode v) \<noteq> 5)"

text \<open>
  \<^verbatim>\<open>pattern="[0-9]{5}"\<close> on the input: the whole value is five decimal digits. The
  browser checks it when the form is submitted; it does not disable the button.
\<close>

definition digit :: "char \<Rightarrow> bool" where
  "digit c = (c \<in> set ''0123456789'')"

definition pattern_matches :: "string \<Rightarrow> bool" where
  "pattern_matches z = (length z = 5 \<and> list_all digit z)"

section \<open>Failing replies and sample collaborators\<close>

text \<open>
  The replies on which a fetch cycle fails: a lookup that throws or yields no place, and
  a sun-data fetch that throws or whose status is not \<^verbatim>\<open>'OK'\<close>.
\<close>

definition zip_lookup_fails :: "zip_reply \<Rightarrow> bool" where
  "zip_lookup_fails reply =
     (case reply of
        ZipFails e \<Rightarrow> True
      | ZipJson None \<Rightarrow> True
      | ZipJson (Some []) \<Rightarrow> True
      | ZipJson (Some (p # ps)) \<Rightarrow> False)"

definition sun_fetch_fails :: "sun_reply \<Rightarrow> bool" where
  "sun_fetch_fails reply =
     (case reply of SunFails e \<Rightarrow> True | SunJson status results \<Rightarrow> status \<noteq> ''OK'')"

text \<open>
  Sample collaborators: a device at 40.7128, -74.006, the postal code 10001 resolving to
  the same place, and date strings parsed for one day (2 November 2026, UTC).
\<close>

definition new_york :: place where
  "new_york = \<lparr> latitude = ''40.7128'', longitude = ''-74.0060'',
     place_name = ''New York City'', state = ''New York'' \<rparr>"

definition sample_parseFloat :: "string \<Rightarrow> real" where
  "sample_parseFloat s =
     (if s = ''40.7128'' then 40.7128 else if s = ''-74.0060'' then - 74.006 else 0)"

definition sample_Date_parse :: "string \<Rightarrow> int option" where
  "sample_Date_parse s =
     (if s = ''2026-11-02T11:12:00+00:00'' then Some 1793617920000
      else if s = ''2026-11-02T21:47:00+00:00'' then Some 1793656020000
      else None)"

definition sample_zippopotam :: "string \<Rightarrow> zip_reply" where
  "sample_zippopotam z =
     (if z = ''10001'' then ZipJson (Some [new_york]) else ZipJson None)"

text \<open>The sun service answers \<^verbatim>\<open>{"results":"","status":"INVALID_REQUEST"}\<close>.\<close>

definition env_invalid_request :: "real env" where
  "env_invalid_request = \<lparr> getCurrentPosition = GeoPosition 40.7128 (- 74.006),
     zippopotam = sample_zippopotam,
     sunrise_sunset = (\<lambda>lat lng. SunJson ''INVALID_REQUEST''
        \<lparr> results_sunrise = [], results_sunset = [] \<rparr>),
     parseFloat = sample_parseFloat, Date_parse = sample_Date_parse,
     setItem = (\<lambda>key value. None) \<rparr>"

text \<open>The sun service cannot be reached.\<close>

definition env_sun_down :: "real env" where
  "env_sun_down = \<lparr> getCurrentPosition = GeoPosition 40.7128 (- 74.006),
     zippopotam = sample_zippopotam,
     sunrise_sunset = (\<lambda>lat lng. SunFails (Error ''Failed to fetch'')),
     parseFloat = sample_parseFloat, Date_parse = sample_Date_parse,
     setItem = (\<lambda>key value. None) \<rparr>"

text \<open>Every collaborator works; geolocation is denied.\<close>

definition env_ok :: "real env" where
  "env_ok = \<lparr> getCurrentPosition = GeoDenied,
     zippopotam = sample_zippopotam,
     sunrise_sunset = (\<lambda>lat lng. SunJson ''OK''
        \<lparr> results_sunrise = ''2026-11-02T11:12:00+00:00'',
          results_sunset = ''2026-11-02T21:47:00+00:00'' \<rparr>),
     parseFloat = sample_parseFloat, Date_parse = sample_Date_parse,
     setItem = (\<lambda>key value. None) \<rparr>"

text \<open>The postal-code service cannot be reached.\<close>

definition env_zip_down :: "real env" where
  "env_zip_down = \<lparr> getCurrentPosition = GeoDenied,
     zippopotam = (\<lambda>z. ZipFails (Error ''Failed to fetch'')),
     sunrise_sunset = (\<lambda>lat lng. SunJson ''OK''
        \<lparr> results_sunrise = ''2026-11-02T11:12:00+00:00'',
          results_sunset = ''2026-11-02T21:47:00+00:00'' \<rparr>),
     parseFloat = sample_parseFloat, Date_parse = sample_Date_parse,
     setItem = (\<lambda>key value. None) \<rparr>"

text \<open>Every service works; the storage is full and rejects every write.\<close>

definition env_storage_full :: "real env" where
  "env_storage_full = \<lparr> getCurrentPosition = GeoDenied,
     zippopotam = sample_zippopotam,
     sunrise_sunset = (\<lambda>lat lng. SunJson ''OK''
        \<lparr> results_sunrise = ''2026-11-02T11:12:00+00:00'',
          results_sunset = ''2026-11-02T21:47:00+00:00'' \<rparr>),
     parseFloat = sample_parseFloat, Date_parse = sample_Date_parse,
     setItem = (\<lambda>key value. Some (Error ''The quota has been exceeded.'')) \<rparr>"

text \<open>A state showing a schedule, with a postal code typed in.\<close>

definition showing :: "string \<Rightarrow> (real, Schedule) persisted_view" where
  "showing z = \<lparr> schedule = Some (deriveSchedule (DateValue (Some 1793531460000))
       (DateValue (Some 1793569680000))),
     loading = False, error = None, zipCode = z, useZipCode = True, requests = [],
     location = ''Current Location'', localStorage = Map.empty \<rparr>"

definition showing_basic :: "string \<Rightarrow> (real, Schedule_basic) view" where
  "showing_basic z = \<lparr> schedule = Some (deriveSchedule_basic (DateValue (Some 1793531460000))
       (DateValue (Some 1793569680000))),
     loading = False, error = None, zipCode = z, useZipCode = True, requests = [] \<rparr>"

section \<open>Properties of the derivation\<close>

lemma getTime_new_Date_minus:
  assumes "\<bar>t\<bar> \<le> maxTime" and "0 \<le> k"
  shows "getTime (new_Date (minus_ms (Some t) k)) =
           (if - maxTime \<le> t - k then Some (t - k) else None)"
  using assms by (auto simp add: new_Date_def TimeClip_def minus_ms_def)

lemma getTime_new_Date_plus:
  assumes "\<bar>t\<bar> \<le> maxTime" and "0 \<le> k"
  shows "getTime (new_Date (plus_ms (Some t) k)) =
           (if t + k \<le> maxTime then Some (t + k) else None)"
  using assms by (auto simp add: new_Date_def TimeClip_def plus_ms_def)

lemma getTime_new_Date_minus_None: "getTime (new_Date (minus_ms None k)) = None"
  by (simp add: new_Date_def TimeClip_def minus_ms_def)

lemma civilDawn_deriveSchedule:
  "civilDawn (deriveSchedule a b) = new_Date (minus_ms (getTime a) (35 * 60000))"
  by (simp add: deriveSchedule_def Let_def)

lemma wakeTime_deriveSchedule:
  "wakeTime (deriveSchedule a b) =
     new_Date (minus_ms (getTime (civilDawn (deriveSchedule a b))) (45 * 60000))"
  by (simp add: deriveSchedule_def Let_def)

lemma toddlerBedTime_deriveSchedule:
  "toddlerBedTime (deriveSchedule a b) =
     new_Date (minus_ms (getTime (wakeTime (deriveSchedule a b))) (11 * 60 * 60 * 1000))"
  by (simp add: deriveSchedule_def Let_def)

lemma civilDusk_deriveSchedule:
  "civilDusk (deriveSchedule a b) = new_Date (plus_ms (getTime b) (35 * 60000))"
  by (simp add: deriveSchedule_def Let_def)

lemma adultBedTime_deriveSchedule:
  "adultBedTime (deriveSchedule a b) = new_Date (plus_ms (getTime b) 9000000)"
  by (simp add: deriveSchedule_def Let_def)

lemma sunrise_sunset_deriveSchedule:
  "sunrise (deriveSchedule a b) = a" "sunset (deriveSchedule a b) = b"
  by (simp_all add: deriveSchedule_def Let_def)

lemma deriveSchedule_basic_shared:
  "wakeTime (deriveSchedule_basic a b) = wakeTime (deriveSchedule a b)"
  "civilDawn (deriveSchedule_basic a b) = civilDawn (deriveSchedule a b)"
  "sunrise (deriveSchedule_basic a b) = sunrise (deriveSchedule a b)"
  "sunset (deriveSchedule_basic a b) = sunset (deriveSchedule a b)"
  "civilDusk (deriveSchedule_basic a b) = civilDusk (deriveSchedule a b)"
  "bedTime (deriveSchedule_basic a b) = adultBedTime (deriveSchedule a b)"
  by (simp_all add: deriveSchedule_def deriveSchedule_basic_def Let_def)

lemma civilDawn_time:
  assumes "getTime a = Some S" and "\<bar>S\<bar> \<le> maxTime"
  shows "getTime (civilDawn (deriveSchedule a b)) =
           (if - maxTime \<le> S - minutes 35 then Some (S - minutes 35) else None)"
  using assms by (simp add: civilDawn_deriveSchedule getTime_new_Date_minus minutes_def)

lemma wakeTime_time:
  assumes "getTime a = Some S" and "\<bar>S\<bar> \<le> maxTime"
  shows "getTime (wakeTime (deriveSchedule a b)) =
           (if - maxTime \<le> S - minutes 80 then Some (S - minutes 80) else None)"
proof (cases "- maxTime \<le> S - minutes 35")
  case True
  with assms have dawn: "getTime (civilDawn (deriveSchedule a b)) = Some (S - minutes 35)"
    by (simp add: civilDawn_time)
  from True assms(2) have "\<bar>S - minutes 35\<bar> \<le> maxTime"
    by (simp add: minutes_def)
  then have "getTime (new_Date (minus_ms (Some (S - minutes 35)) (45 * 60000))) =
      (if - maxTime \<le> S - minutes 35 - 45 * 60000 then Some (S - minutes 35 - 45 * 60000) else None)"
    by (rule getTime_new_Date_minus) simp
  then show ?thesis
    by (simp add: wakeTime_deriveSchedule dawn minutes_def)
next
  case False
  with assms have dawn: "getTime (civilDawn (deriveSchedule a b)) = None"
    by (simp add: civilDawn_time)
  from False have "\<not> - maxTime \<le> S - minutes 80"
    by (simp add: minutes_def)
  then show ?thesis
    by (simp add: wakeTime_deriveSchedule dawn getTime_new_Date_minus_None)
qed

lemma toddlerBedTime_time:
  assumes "getTime a = Some S" and "\<bar>S\<bar> \<le> maxTime"
  shows "getTime (toddlerBedTime (deriveSchedule a b)) =
           (if - maxTime \<le> S - minutes 740 then Some (S - minutes 740) else None)"
proof (cases "- maxTime \<le> S - minutes 80")
  case True
  with assms have wake: "getTime (wakeTime (deriveSchedule a b)) = Some (S - minutes 80)"
    by (simp add: wakeTime_time)
  from True assms(2) have "\<bar>S - minutes 80\<bar> \<le> maxTime"
    by (simp add: minutes_def)
  then have "getTime (new_Date (minus_ms (Some (S - minutes 80)) (11 * 60 * 60 * 1000))) =
      (if - maxTime \<le> S - minutes 80 - 11 * 60 * 60 * 1000
       then Some (S - minutes 80 - 11 * 60 * 60 * 1000) else None)"
    by (rule getTime_new_Date_minus) simp
  then show ?thesis
    by (simp add: toddlerBedTime_deriveSchedule wake minutes_def)
next
  case False
  with assms have wake: "getTime (wakeTime (deriveSchedule a b)) = None"
    by (simp add: wakeTime_time)
  from False have "\<not> - maxTime \<le> S - minutes 740"
    by (simp add: minutes_def)
  then show ?thesis
    by (simp add: toddlerBedTime_deriveSchedule wake getTime_new_Date_minus_None)
qed

lemma civilDusk_time:
  assumes "getTime b = Some T" and "\<bar>T\<bar> \<le> maxTime"
  shows "getTime (civilDusk (deriveSchedule a b)) =
           (if T + minutes 35 \<le> maxTime then Some (T + minutes 35) else None)"
  using assms by (simp add: civilDusk_deriveSchedule getTime_new_Date_plus minutes_def)

lemma adultBedTime_time:
  assumes "getTime b = Some T" and "\<bar>T\<bar> \<le> maxTime"
  shows "getTime (adultBedTime (deriveSchedule a b)) =
           (if T + minutes 150 \<le> maxTime then Some (T + minutes 150) else None)"
  using assms by (simp add: adultBedTime_deriveSchedule getTime_new_Date_plus minutes_def)

subsection \<open>Offsets, the worked example, ordering, agreement of the variants\<close>

text \<open>
  C1. For every pair of input instants, each derived field is the exact offset of its
  input, without rounding: civil dawn 35 minutes before sunrise, civil dusk 35 minutes
  after sunset, wake time 45 minutes before civil dawn, the adult (in the basic variant,
  the only) bedtime 150 minutes after sunset, the toddler bedtime 660 minutes before
  wake time. This holds whenever the offset instant lies in the range of \<^verbatim>\<open>Date\<close>;
  beyond the range the field is the Invalid Date.
\<close>

theorem C1_offsets:
  assumes "getTime sunriseTime = Some S" and "\<bar>S\<bar> \<le> maxTime"
    and "getTime sunsetTime = Some T" and "\<bar>T\<bar> \<le> maxTime"
  shows "getTime (civilDawn (deriveSchedule sunriseTime sunsetTime)) =
           (if - maxTime \<le> S - minutes 35 then Some (S - minutes 35) else None)
       \<and> getTime (civilDusk (deriveSchedule sunriseTime sunsetTime)) =
           (if T + minutes 35 \<le> maxTime then Some (T + minutes 35) else None)
       \<and> getTime (wakeTime (deriveSchedule sunriseTime sunsetTime)) =
           (if - maxTime \<le> S - minutes 35 - minutes 45
            then Some (S - minutes 35 - minutes 45) else None)
       \<and> getTime (adultBedTime (deriveSchedule sunriseTime sunsetTime)) =
           (if T + minutes 150 \<le> maxTime then Some (T + minutes 150) else None)
       \<and> getTime (toddlerBedTime (deriveSchedule sunriseTime sunsetTime)) =
           (if - maxTime \<le> S - minutes 35 - minutes 45 - minutes 660
            then Some (S - minutes 35 - minutes 45 - minutes 660) else None)
       \<and> getTime (civilDawn (deriveSchedule_basic sunriseTime sunsetTime)) =
           (if - maxTime \<le> S - minutes 35 then Some (S - minutes 35) else None)
       \<and> getTime (civilDusk (deriveSchedule_basic sunriseTime sunsetTime)) =
           (if T + minutes 35 \<le> maxTime then Some (T + minutes 35) else None)
       \<and> getTime (wakeTime (deriveSchedule_basic sunriseTime sunsetTime)) =
           (if - maxTime \<le> S - minutes 35 - minutes 45
            then Some (S - minutes 35 - minutes 45) else None)
       \<and> getTime (bedTime (deriveSchedule_basic sunriseTime sunsetTime)) =
           (if T + minutes 150 \<le> maxTime then Some (T + minutes 150) else None)"
proof -
  have m: "S - minutes 35 - minutes 45 = S - minutes 80"
    "S - minutes 80 - minutes 660 = S - minutes 740"
    by (simp_all add: minutes_def)
  show ?thesis
    unfolding deriveSchedule_basic_shared m
    using assms(1,2) assms(3,4)
    by (simp only: civilDawn_time wakeTime_time toddlerBedTime_time civilDusk_time
        adultBedTime_time simp_thms)
qed

text \<open>Sunrise at 11:12 and sunset at 21:47 UTC on 2 November 2026.\<close>

theorem C1_offsets_witness:
  "getTime (DateValue (Some 1793617920000)) = Some 1793617920000
   \<and> \<bar>1793617920000\<bar> \<le> maxTime
   \<and> getTime (DateValue (Some 1793656020000)) = Some 1793656020000
   \<and> \<bar>1793656020000\<bar> \<le> maxTime
   \<and> getTime (civilDawn (deriveSchedule (DateValue (Some 1793617920000))
        (DateValue (Some 1793656020000)))) = Some 1793615820000
   \<and> getTime (wakeTime (deriveSchedule (DateValue (Some 1793617920000))
        (DateValue (Some 1793656020000)))) = Some 1793613120000
   \<and> getTime (toddlerBedTime (deriveSchedule (DateValue (Some 1793617920000))
        (DateValue (Some 1793656020000)))) = Some 1793573520000
   \<and> getTime (civilDusk (deriveSchedule (DateValue (Some 1793617920000))
        (DateValue (Some 1793656020000)))) = Some 1793658120000
   \<and> getTime (adultBedTime (deriveSchedule (DateValue (Some 1793617920000))
        (DateValue (Some 1793656020000)))) = Some 1793665020000
   \<and> getTime (bedTime (deriveSchedule_basic (DateValue (Some 1793617920000))
        (DateValue (Some 1793656020000)))) = Some 1793665020000"
  using C1_offsets [of "DateValue (Some 1793617920000)" 1793617920000
      "DateValue (Some 1793656020000)" 1793656020000]
  by (simp add: minutes_def maxTime_def)

text \<open>
  At the earliest instant a \<^verbatim>\<open>Date\<close> can hold, civil dawn is not the instant 35 minutes
  before sunrise.
\<close>

theorem C1_counterexample:
  "instant (DateValue (Some (- 8640000000000000)))
   \<and> instant (DateValue (Some (- 8639999956800000)))
   \<and> civilDawn (deriveSchedule (DateValue (Some (- 8640000000000000)))
         (DateValue (Some (- 8639999956800000))))
       \<noteq> DateValue (Some (- 8640000000000000 - minutes 35))"
  by (simp add: deriveSchedule_def Let_def minus_ms_def plus_ms_def new_Date_def TimeClip_def
      instant_def minutes_def maxTime_def)

text \<open>
  C4. On a day that starts at the instant \<open>d\<close>, sunrise at 06:12 and sunset at 19:47 give
  civil dawn at 05:37, wake time at 04:52, civil dusk at 20:22, the adult bedtime at
  22:17 and the toddler bedtime 11 hours before wake time, at 17:52 of the previous day.
  Wall-clock times are offsets from \<open>d\<close>; the day before and the day itself lie in the
  range of \<^verbatim>\<open>Date\<close>.
\<close>

theorem C4_worked_example:
  assumes "- maxTime + minutes (24 * 60) \<le> d" and "d + minutes (24 * 60) \<le> maxTime"
  shows "civilDawn (deriveSchedule (clock d 6 12) (clock d 19 47)) = clock d 5 37
       \<and> wakeTime (deriveSchedule (clock d 6 12) (clock d 19 47)) = clock d 4 52
       \<and> civilDusk (deriveSchedule (clock d 6 12) (clock d 19 47)) = clock d 20 22
       \<and> adultBedTime (deriveSchedule (clock d 6 12) (clock d 19 47)) = clock d 22 17
       \<and> toddlerBedTime (deriveSchedule (clock d 6 12) (clock d 19 47))
           = clock (d - minutes (24 * 60)) 17 52
       \<and> getTime (toddlerBedTime (deriveSchedule (clock d 6 12) (clock d 19 47)))
           = minus_ms (getTime (wakeTime (deriveSchedule (clock d 6 12) (clock d 19 47))))
               (minutes (11 * 60))
       \<and> civilDawn (deriveSchedule_basic (clock d 6 12) (clock d 19 47)) = clock d 5 37
       \<and> wakeTime (deriveSchedule_basic (clock d 6 12) (clock d 19 47)) = clock d 4 52
       \<and> civilDusk (deriveSchedule_basic (clock d 6 12) (clock d 19 47)) = clock d 20 22
       \<and> bedTime (deriveSchedule_basic (clock d 6 12) (clock d 19 47)) = clock d 22 17"
proof -
  let ?S = "d + minutes (6 * 60 + 12)" and ?T = "d + minutes (19 * 60 + 47)"
  let ?sch = "deriveSchedule (clock d 6 12) (clock d 19 47)"
  have S: "getTime (clock d 6 12) = Some ?S" "\<bar>?S\<bar> \<le> maxTime"
    and T: "getTime (clock d 19 47) = Some ?T" "\<bar>?T\<bar> \<le> maxTime"
    using assms by (simp_all add: clock_def minutes_def)
  have dawn: "civilDawn ?sch = clock d 5 37"
    apply (rule Date.expand)
    apply (simp only: civilDawn_time [OF S])
    using assms apply (simp add: clock_def minutes_def)
    done
  have wake: "wakeTime ?sch = clock d 4 52"
    apply (rule Date.expand)
    apply (simp only: wakeTime_time [OF S])
    using assms apply (simp add: clock_def minutes_def)
    done
  have toddler: "toddlerBedTime ?sch = clock (d - minutes (24 * 60)) 17 52"
    apply (rule Date.expand)
    apply (simp only: toddlerBedTime_time [OF S])
    using assms apply (simp add: clock_def minutes_def)
    done
  have dusk: "civilDusk ?sch = clock d 20 22"
    apply (rule Date.expand)
    apply (simp only: civilDusk_time [OF T])
    using assms apply (simp add: clock_def minutes_def)
    done
  have adult: "adultBedTime ?sch = clock d 22 17"
    apply (rule Date.expand)
    apply (simp only: adultBedTime_time [OF T])
    using assms apply (simp add: clock_def minutes_def)
    done
  have eleven: "getTime (toddlerBedTime ?sch) = minus_ms (getTime (wakeTime ?sch)) (minutes (11 * 60))"
    unfolding toddler wake by (simp add: clock_def minus_ms_def minutes_def)
  show ?thesis
    unfolding deriveSchedule_basic_shared
    using dawn wake toddler dusk adult eleven by (simp only: simp_thms)
qed

text \<open>The day that starts on 2 November 2026 at 00:00 UTC.\<close>

theorem C4_worked_example_witness:
  "- maxTime + minutes (24 * 60) \<le> 1793577600000
   \<and> 1793577600000 + minutes (24 * 60) \<le> maxTime
   \<and> clock 1793577600000 6 12 = DateValue (Some 1793599920000)
   \<and> wakeTime (deriveSchedule (clock 1793577600000 6 12) (clock 1793577600000 19 47))
       = DateValue (Some 1793595120000)
   \<and> toddlerBedTime (deriveSchedule (clock 1793577600000 6 12) (clock 1793577600000 19 47))
       = DateValue (Some 1793555520000)
   \<and> adultBedTime (deriveSchedule (clock 1793577600000 6 12) (clock 1793577600000 19 47))
       = DateValue (Some 1793657820000)"
  using C4_worked_example [of 1793577600000]
  by (simp add: clock_def minutes_def maxTime_def)

text \<open>
  C8. A schedule derived from a sunrise instant that lies at least 740 minutes after the
  earliest date and a sunset instant that lies at least 150 minutes before the latest
  date is ordered: toddler bedtime, wake time, civil dawn, sunrise on the morning side,
  and sunset, civil dusk, adult bedtime on the evening side; wake time is exactly 80
  minutes before sunrise.
\<close>

theorem C8_ordering:
  assumes "getTime sunriseTime = Some S" and "S \<le> maxTime"
    and "- maxTime \<le> S - minutes 740"
    and "getTime sunsetTime = Some T" and "- maxTime \<le> T"
    and "T + minutes 150 \<le> maxTime"
  shows "date_less (toddlerBedTime (deriveSchedule sunriseTime sunsetTime))
           (wakeTime (deriveSchedule sunriseTime sunsetTime))
       \<and> date_less (wakeTime (deriveSchedule sunriseTime sunsetTime))
           (civilDawn (deriveSchedule sunriseTime sunsetTime))
       \<and> date_less (civilDawn (deriveSchedule sunriseTime sunsetTime))
           (sunrise (deriveSchedule sunriseTime sunsetTime))
       \<and> date_less (sunset (deriveSchedule sunriseTime sunsetTime))
           (civilDusk (deriveSchedule sunriseTime sunsetTime))
       \<and> date_less (civilDusk (deriveSchedule sunriseTime sunsetTime))
           (adultBedTime (deriveSchedule sunriseTime sunsetTime))
       \<and> getTime (wakeTime (deriveSchedule sunriseTime sunsetTime)) = Some (S - minutes 80)
       \<and> date_less (wakeTime (deriveSchedule_basic sunriseTime sunsetTime))
           (civilDawn (deriveSchedule_basic sunriseTime sunsetTime))
       \<and> date_less (civilDawn (deriveSchedule_basic sunriseTime sunsetTime))
           (sunrise (deriveSchedule_basic sunriseTime sunsetTime))
       \<and> date_less (sunset (deriveSchedule_basic sunriseTime sunsetTime))
           (civilDusk (deriveSchedule_basic sunriseTime sunsetTime))
       \<and> date_less (civilDusk (deriveSchedule_basic sunriseTime sunsetTime))
           (bedTime (deriveSchedule_basic sunriseTime sunsetTime))
       \<and> getTime (wakeTime (deriveSchedule_basic sunriseTime sunsetTime))
           = Some (S - minutes 80)"
proof -
  let ?sch = "deriveSchedule sunriseTime sunsetTime"
  from assms have S: "getTime sunriseTime = Some S" "\<bar>S\<bar> \<le> maxTime"
    and T: "getTime sunsetTime = Some T" "\<bar>T\<bar> \<le> maxTime"
    by (simp_all add: minutes_def maxTime_def)
  have toddler: "getTime (toddlerBedTime ?sch) = Some (S - minutes 740)"
    using assms by (simp add: toddlerBedTime_time [OF S])
  have wake: "getTime (wakeTime ?sch) = Some (S - minutes 80)"
    using assms by (simp add: wakeTime_time [OF S] minutes_def)
  have dawn: "getTime (civilDawn ?sch) = Some (S - minutes 35)"
    using assms by (simp add: civilDawn_time [OF S] minutes_def)
  have dusk: "getTime (civilDusk ?sch) = Some (T + minutes 35)"
    using assms by (simp add: civilDusk_time [OF T] minutes_def)
  have adult: "getTime (adultBedTime ?sch) = Some (T + minutes 150)"
    using assms by (simp add: adultBedTime_time [OF T])
  show ?thesis
    unfolding deriveSchedule_basic_shared
    by (simp add: date_less_def toddler wake dawn dusk adult sunrise_sunset_deriveSchedule
        S(1) T(1) minutes_def)
qed

text \<open>Sunrise at 11:12 and sunset at 21:47 UTC on 2 November 2026, once more.\<close>

theorem C8_ordering_witness:
  "getTime (DateValue (Some 1793617920000)) = Some 1793617920000
   \<and> 1793617920000 \<le> maxTime \<and> - maxTime \<le> 1793617920000 - minutes 740
   \<and> getTime (DateValue (Some 1793656020000)) = Some 1793656020000
   \<and> - maxTime \<le> 1793656020000 \<and> 1793656020000 + minutes 150 \<le> maxTime
   \<and> date_less (toddlerBedTime (deriveSchedule (DateValue (Some 1793617920000))
         (DateValue (Some 1793656020000))))
       (wakeTime (deriveSchedule (DateValue (Some 1793617920000))
         (DateValue (Some 1793656020000))))
   \<and> date_less (civilDusk (deriveSchedule (DateValue (Some 1793617920000))
         (DateValue (Some 1793656020000))))
       (adultBedTime (deriveSchedule (DateValue (Some 1793617920000))
         (DateValue (Some 1793656020000))))
   \<and> getTime (wakeTime (deriveSchedule (DateValue (Some 1793617920000))
         (DateValue (Some 1793656020000)))) = Some 1793613120000"
  using C8_ordering [of "DateValue (Some 1793617920000)" 1793617920000
      "DateValue (Some 1793656020000)" 1793656020000]
  by (simp add: minutes_def maxTime_def)

text \<open>
  At the earliest instant a \<^verbatim>\<open>Date\<close> can hold, wake time is the Invalid Date and does
  not precede civil dawn.
\<close>

theorem C8_counterexample:
  "instant (DateValue (Some (- 8640000000000000)))
   \<and> instant (DateValue (Some (- 8639999956800000)))
   \<and> \<not> date_less
       (wakeTime (deriveSchedule (DateValue (Some (- 8640000000000000)))
          (DateValue (Some (- 8639999956800000)))))
       (civilDawn (deriveSchedule (DateValue (Some (- 8640000000000000)))
          (DateValue (Some (- 8639999956800000)))))"
  by (simp add: deriveSchedule_def Let_def minus_ms_def plus_ms_def new_Date_def TimeClip_def
      instant_def date_less_def minutes_def maxTime_def)

text \<open>
  C9. The two variants derive the same wake time, civil dawn, sunrise, sunset and civil
  dusk from the same pair of dates, and the bedtime of the basic variant is the adult
  bedtime of the persisted variant.
\<close>

theorem C9_variants_agree:
  "wakeTime (deriveSchedule_basic a b) = wakeTime (deriveSchedule a b)
   \<and> civilDawn (deriveSchedule_basic a b) = civilDawn (deriveSchedule a b)
   \<and> sunrise (deriveSchedule_basic a b) = sunrise (deriveSchedule a b)
   \<and> sunset (deriveSchedule_basic a b) = sunset (deriveSchedule a b)
   \<and> civilDusk (deriveSchedule_basic a b) = civilDusk (deriveSchedule a b)
   \<and> bedTime (deriveSchedule_basic a b) = adultBedTime (deriveSchedule a b)"
  by (simp add: deriveSchedule_def deriveSchedule_basic_def Let_def)

section \<open>Properties of the fetch cycle\<close>

lemma fetchZipCodeLocation_fails:
  "zip_lookup_fails (zippopotam env z) \<Longrightarrow>
   fetchZipCodeLocation env z v =
     (Inl (Error ''Invalid zip code. Please try again.''), v\<lparr> requests := requests v @ [ZipRequest z] \<rparr>)"
  by (simp add: fetchZipCodeLocation_def fetchZipCodeLocation_try_def zip_lookup_fails_def Let_def
      split: zip_reply.splits option.splits list.splits)

lemma fetchZipCodeLocation_basic_fails:
  "zip_lookup_fails (zippopotam env z) \<Longrightarrow>
   fetchZipCodeLocation_basic env z v =
     (Inl (Error ''Invalid zip code. Please try again.''), v\<lparr> requests := requests v @ [ZipRequest z] \<rparr>)"
  by (simp add: fetchZipCodeLocation_basic_def fetchZipCodeLocation_try_basic_def zip_lookup_fails_def Let_def
      split: zip_reply.splits option.splits list.splits)

lemma fetchZipCodeLocation_succeeds:
  "zippopotam env z = ZipJson (Some (p # ps)) \<Longrightarrow>
   fetchZipCodeLocation env z v =
     (Inr (parseFloat env (latitude p), parseFloat env (longitude p), place_name p @ '', '' @ state p),
      v\<lparr> requests := requests v @ [ZipRequest z] \<rparr>)"
  by (simp add: fetchZipCodeLocation_def fetchZipCodeLocation_try_def Let_def)

lemma fetchZipCodeLocation_basic_succeeds:
  "zippopotam env z = ZipJson (Some (p # ps)) \<Longrightarrow>
   fetchZipCodeLocation_basic env z v =
     (Inr (parseFloat env (latitude p), parseFloat env (longitude p)),
      v\<lparr> requests := requests v @ [ZipRequest z] \<rparr>)"
  by (simp add: fetchZipCodeLocation_basic_def fetchZipCodeLocation_try_basic_def Let_def)

lemma zip_reply_cases:
  "zip_lookup_fails r \<or> (\<exists>p ps. r = ZipJson (Some (p # ps)))"
  by (simp add: zip_lookup_fails_def split: zip_reply.splits option.splits list.splits)

lemma fetchSunData_fails_schedule:
  "sun_fetch_fails (sunrise_sunset env lat lng) \<Longrightarrow>
   schedule (snd (fetchSunData env lat lng v)) = schedule v"
  by (simp add: fetchSunData_def sun_fetch_fails_def Let_def split: sun_reply.splits)

lemma fetchSunData_basic_fails_schedule:
  "sun_fetch_fails (sunrise_sunset env lat lng) \<Longrightarrow>
   schedule (snd (fetchSunData_basic env lat lng v)) = schedule v"
  by (simp add: fetchSunData_basic_def sun_fetch_fails_def Let_def split: sun_reply.splits)

lemma fetchSunData_throws:
  "sunrise_sunset env lat lng = SunFails e \<Longrightarrow>
   fetchSunData env lat lng v =
     (Some (Error ''Failed to fetch sun data. Please try again.''),
      v\<lparr> requests := requests v @ [SunRequest lat lng] \<rparr>)"
  by (simp add: fetchSunData_def Let_def)

lemma fetchSunData_not_ok:
  "sunrise_sunset env lat lng = SunJson status r \<Longrightarrow> status \<noteq> ''OK'' \<Longrightarrow>
   fetchSunData env lat lng v = (None, v\<lparr> requests := requests v @ [SunRequest lat lng] \<rparr>)"
  by (simp add: fetchSunData_def Let_def)

lemma fetchSunData_ok:
  "sunrise_sunset env lat lng = SunJson ''OK'' r \<Longrightarrow>
   fetchSunData env lat lng v =
     (None, v\<lparr> requests := requests v @ [SunRequest lat lng],
               schedule := Some (deriveSchedule (new_Date_string env (results_sunrise r))
                                   (new_Date_string env (results_sunset r))),
               error := None \<rparr>)"
  by (simp add: fetchSunData_def Let_def)

lemma handleZipCodeSubmit_zip_fails:
  assumes "zip_lookup_fails (zippopotam env (zipToUse ov (zipCode v)))"
  shows "handleZipCodeSubmit env ov v =
     v\<lparr> loading := False, requests := requests v @ [ZipRequest (zipToUse ov (zipCode v))],
        error := Some ''Invalid zip code. Please try again.'' \<rparr>"
  using assms
  by (simp add: handleZipCodeSubmit_def Let_def fetchZipCodeLocation_fails error_text_def)

lemma handleZipCodeSubmit_basic_zip_fails:
  assumes "zip_lookup_fails (zippopotam env (zipCode v))"
  shows "handleZipCodeSubmit_basic env v =
     v\<lparr> loading := False, requests := requests v @ [ZipRequest (zipCode v)],
        error := Some ''Invalid zip code. Please try again.'' \<rparr>"
  using assms
  by (simp add: handleZipCodeSubmit_basic_def Let_def fetchZipCodeLocation_basic_fails error_text_def)

lemma handleZipCodeSubmit_sun_fails:
  assumes "\<forall>lat lng. sun_fetch_fails (sunrise_sunset env lat lng)"
  shows "schedule (handleZipCodeSubmit env ov v) = schedule v"
proof -
  let ?z = "zipToUse ov (zipCode v)"
  from zip_reply_cases [of "zippopotam env ?z"] show ?thesis
  proof
    assume "zip_lookup_fails (zippopotam env ?z)"
    then show ?thesis by (simp add: handleZipCodeSubmit_zip_fails)
  next
    assume "\<exists>p ps. zippopotam env ?z = ZipJson (Some (p # ps))"
    then obtain p ps where ok: "zippopotam env ?z = ZipJson (Some (p # ps))" by blast
    let ?v = "v\<lparr>loading := True, requests := requests v @ [ZipRequest ?z]\<rparr>"
    have "schedule (snd (fetchSunData env (parseFloat env (latitude p)) (parseFloat env (longitude p)) ?v)) = schedule ?v"
      using assms by (simp add: fetchSunData_fails_schedule)
    then show ?thesis
      by (auto simp add: handleZipCodeSubmit_def Let_def fetchZipCodeLocation_succeeds [OF ok]
          split: prod.splits option.splits)
  qed
qed

lemma handleZipCodeSubmit_basic_sun_fails:
  assumes "\<forall>lat lng. sun_fetch_fails (sunrise_sunset env lat lng)"
  shows "schedule (handleZipCodeSubmit_basic env v) = schedule v"
proof -
  let ?z = "zipCode v"
  from zip_reply_cases [of "zippopotam env ?z"] show ?thesis
  proof
    assume "zip_lookup_fails (zippopotam env ?z)"
    then show ?thesis by (simp add: handleZipCodeSubmit_basic_zip_fails)
  next
    assume "\<exists>p ps. zippopotam env ?z = ZipJson (Some (p # ps))"
    then obtain p ps where ok: "zippopotam env ?z = ZipJson (Some (p # ps))" by blast
    let ?v = "v\<lparr>loading := True, requests := requests v @ [ZipRequest ?z]\<rparr>"
    have "schedule (snd (fetchSunData_basic env (parseFloat env (latitude p)) (parseFloat env (longitude p)) ?v)) = schedule ?v"
      using assms by (simp add: fetchSunData_basic_fails_schedule)
    then show ?thesis
      by (auto simp add: handleZipCodeSubmit_basic_def Let_def fetchZipCodeLocation_basic_succeeds [OF ok]
          split: prod.splits option.splits)
  qed
qed

lemma getLocationAndSunData_fails:
  assumes "(\<forall>lat lng. sun_fetch_fails (sunrise_sunset env lat lng))
           \<or> getCurrentPosition env = GeoDenied \<or> (\<exists>e. getCurrentPosition env = GeoThrows e)"
  shows "schedule (getLocationAndSunData env v) = schedule v"
proof (cases "getCurrentPosition env")
  case (GeoPosition lat lng)
  let ?v = "v\<lparr>requests := requests v @ [GeoRequest]\<rparr>"
  from assms GeoPosition have "sun_fetch_fails (sunrise_sunset env lat lng)" by simp
  then have "schedule (snd (fetchSunData env lat lng ?v)) = schedule ?v"
    by (rule fetchSunData_fails_schedule)
  with GeoPosition show ?thesis
    by (auto simp add: getLocationAndSunData_def Let_def split: prod.splits option.splits)
next
  case GeoDenied
  then show ?thesis by (simp add: getLocationAndSunData_def Let_def)
next
  case (GeoThrows e)
  then show ?thesis by (simp add: getLocationAndSunData_def Let_def)
qed

lemma getLocationAndSunData_basic_fails:
  assumes "(\<forall>lat lng. sun_fetch_fails (sunrise_sunset env lat lng))
           \<or> getCurrentPosition env = GeoDenied \<or> (\<exists>e. getCurrentPosition env = GeoThrows e)"
  shows "schedule (getLocationAndSunData_basic env v) = schedule v"
proof (cases "getCurrentPosition env")
  case (GeoPosition lat lng)
  let ?v = "v\<lparr>requests := requests v @ [GeoRequest]\<rparr>"
  from assms GeoPosition have "sun_fetch_fails (sunrise_sunset env lat lng)" by simp
  then have "schedule (snd (fetchSunData_basic env lat lng ?v)) = schedule ?v"
    by (rule fetchSunData_basic_fails_schedule)
  with GeoPosition show ?thesis
    by (auto simp add: getLocationAndSunData_basic_def Let_def split: prod.splits option.splits)
next
  case GeoDenied
  then show ?thesis by (simp add: getLocationAndSunData_basic_def Let_def)
next
  case (GeoThrows e)
  then show ?thesis by (simp add: getLocationAndSunData_basic_def Let_def)
qed

lemma fetchSunData_schedule_cases:
  "schedule (snd (fetchSunData env lat lng v)) = schedule v
   \<or> (\<exists>a b. schedule (snd (fetchSunData env lat lng v)) = Some (deriveSchedule a b))"
  by (auto simp add: fetchSunData_def Let_def split: sun_reply.splits)

lemma fetchSunData_basic_schedule_cases:
  "schedule (snd (fetchSunData_basic env lat lng v)) = schedule v
   \<or> (\<exists>a b. schedule (snd (fetchSunData_basic env lat lng v)) = Some (deriveSchedule_basic a b))"
  by (auto simp add: fetchSunData_basic_def Let_def split: sun_reply.splits)

lemma fetchSunData_requests:
  "requests (snd (fetchSunData env lat lng v)) = requests v @ [SunRequest lat lng]"
  by (simp add: fetchSunData_def Let_def split: sun_reply.splits)

lemma handleZipCodeSubmit_requests:
  "\<exists>rest. requests (handleZipCodeSubmit env ov v)
            = requests v @ ZipRequest (zipToUse ov (zipCode v)) # rest
         \<and> GeoRequest \<notin> set rest"
proof -
  let ?z = "zipToUse ov (zipCode v)"
  from zip_reply_cases [of "zippopotam env ?z"] show ?thesis
  proof
    assume "zip_lookup_fails (zippopotam env ?z)"
    then show ?thesis by (simp add: handleZipCodeSubmit_zip_fails)
  next
    assume "\<exists>p ps. zippopotam env ?z = ZipJson (Some (p # ps))"
    then obtain p ps where ok: "zippopotam env ?z = ZipJson (Some (p # ps))" by blast
    let ?v = "v\<lparr>loading := True, requests := requests v @ [ZipRequest ?z]\<rparr>"
    let ?lat = "parseFloat env (latitude p)" and ?lng = "parseFloat env (longitude p)"
    have "requests (snd (fetchSunData env ?lat ?lng ?v)) = requests ?v @ [SunRequest ?lat ?lng]"
      by (rule fetchSunData_requests)
    then have "requests (handleZipCodeSubmit env ov v)
        = requests v @ ZipRequest ?z # [SunRequest ?lat ?lng]"
      by (auto simp add: handleZipCodeSubmit_def Let_def fetchZipCodeLocation_succeeds [OF ok]
          split: prod.splits option.splits)
    then show ?thesis by simp
  qed
qed

lemma getLocationAndSunData_requests:
  "\<exists>rest. requests (getLocationAndSunData env v) = requests v @ GeoRequest # rest"
proof (cases "getCurrentPosition env")
  case (GeoPosition lat lng)
  let ?v = "v\<lparr>requests := requests v @ [GeoRequest]\<rparr>"
  have "requests (snd (fetchSunData env lat lng ?v)) = requests ?v @ [SunRequest lat lng]"
    by (rule fetchSunData_requests)
  with GeoPosition show ?thesis
    by (auto simp add: getLocationAndSunData_def Let_def split: prod.splits option.splits)
next
  case GeoDenied
  then show ?thesis by (simp add: getLocationAndSunData_def Let_def)
next
  case (GeoThrows e)
  then show ?thesis by (simp add: getLocationAndSunData_def Let_def)
qed

lemma handleZipCodeSubmit_schedule_cases:
  "schedule (handleZipCodeSubmit env ov v) = schedule v
   \<or> (\<exists>a b. schedule (handleZipCodeSubmit env ov v) = Some (deriveSchedule a b))"
proof -
  let ?z = "zipToUse ov (zipCode v)"
  from zip_reply_cases [of "zippopotam env ?z"] show ?thesis
  proof
    assume "zip_lookup_fails (zippopotam env ?z)"
    then show ?thesis by (simp add: handleZipCodeSubmit_zip_fails)
  next
    assume "\<exists>p ps. zippopotam env ?z = ZipJson (Some (p # ps))"
    then obtain p ps where ok: "zippopotam env ?z = ZipJson (Some (p # ps))" by blast
    let ?v = "v\<lparr>loading := True, requests := requests v @ [ZipRequest ?z]\<rparr>"
    let ?lat = "parseFloat env (latitude p)" and ?lng = "parseFloat env (longitude p)"
    have sch: "schedule (handleZipCodeSubmit env ov v) = schedule (snd (fetchSunData env ?lat ?lng ?v))"
      by (auto simp add: handleZipCodeSubmit_def Let_def fetchZipCodeLocation_succeeds [OF ok]
          split: prod.splits option.splits)
    from fetchSunData_schedule_cases [of env ?lat ?lng ?v] show ?thesis
      unfolding sch by simp
  qed
qed

lemma handleZipCodeSubmit_basic_schedule_cases:
  "schedule (handleZipCodeSubmit_basic env v) = schedule v
   \<or> (\<exists>a b. schedule (handleZipCodeSubmit_basic env v) = Some (deriveSchedule_basic a b))"
proof -
  let ?z = "zipCode v"
  from zip_reply_cases [of "zippopotam env ?z"] show ?thesis
  proof
    assume "zip_lookup_fails (zippopotam env ?z)"
    then show ?thesis by (simp add: handleZipCodeSubmit_basic_zip_fails)
  next
    assume "\<exists>p ps. zippopotam env ?z = ZipJson (Some (p # ps))"
    then obtain p ps where ok: "zippopotam env ?z = ZipJson (Some (p # ps))" by blast
    let ?v = "v\<lparr>loading := True, requests := requests v @ [ZipRequest ?z]\<rparr>"
    let ?lat = "parseFloat env (latitude p)" and ?lng = "parseFloat env (longitude p)"
    have sch: "schedule (handleZipCodeSubmit_basic env v)
        = schedule (snd (fetchSunData_basic env ?lat ?lng ?v))"
      by (auto simp add: handleZipCodeSubmit_basic_def Let_def
          fetchZipCodeLocation_basic_succeeds [OF ok] split: prod.splits option.splits)
    from fetchSunData_basic_schedule_cases [of env ?lat ?lng ?v] show ?thesis
      unfolding sch by simp
  qed
qed

lemma handleZipCodeSubmit_saves:
  assumes "zippopotam env (zipToUse ov (zipCode v)) = ZipJson (Some (p # ps))"
    and "sunrise_sunset env (parseFloat env (latitude p)) (parseFloat env (longitude p))
           = SunJson ''OK'' r"
    and "setItem env ZIP_STORAGE_KEY (zipToUse ov (zipCode v)) = None"
  shows "localStorage (handleZipCodeSubmit env ov v)
           = (localStorage v)(ZIP_STORAGE_KEY \<mapsto> zipToUse ov (zipCode v))"
  by (simp add: handleZipCodeSubmit_def Let_def fetchZipCodeLocation_succeeds [OF assms(1)]
      fetchSunData_ok [OF assms(2)] assms(3))

lemma handleZipCodeSubmit_write_rejected:
  assumes "zippopotam env (zipToUse ov (zipCode v)) = ZipJson (Some (p # ps))"
    and "sunrise_sunset env (parseFloat env (latitude p)) (parseFloat env (longitude p))
           = SunJson ''OK'' r"
    and "setItem env ZIP_STORAGE_KEY (zipToUse ov (zipCode v)) = Some err"
  shows "localStorage (handleZipCodeSubmit env ov v) = localStorage v"
    and "error (handleZipCodeSubmit env ov v) = Some (error_text err)"
    and "location (handleZipCodeSubmit env ov v) = location v"
  by (simp_all add: handleZipCodeSubmit_def Let_def fetchZipCodeLocation_succeeds [OF assms(1)]
      fetchSunData_ok [OF assms(2)] assms(3))

lemma handleZipCodeSubmit_sun_throws:
  assumes "zippopotam env (zipToUse ov (zipCode v)) = ZipJson (Some (p # ps))"
    and "sunrise_sunset env (parseFloat env (latitude p)) (parseFloat env (longitude p))
           = SunFails e"
  shows "localStorage (handleZipCodeSubmit env ov v) = localStorage v"
  by (simp add: handleZipCodeSubmit_def Let_def fetchZipCodeLocation_succeeds [OF assms(1)]
      fetchSunData_throws [OF assms(2)])

lemmas sample_defs =
  env_invalid_request_def env_sun_down_def env_ok_def env_zip_down_def
  env_storage_full_def sample_zippopotam_def
  sample_parseFloat_def sample_Date_parse_def new_york_def showing_def showing_basic_def
  initial_def initial_basic_def

lemmas handler_defs =
  handleZipCodeSubmit_def handleZipCodeSubmit_basic_def getLocationAndSunData_def
  getLocationAndSunData_basic_def fetchZipCodeLocation_def fetchZipCodeLocation_basic_def
  fetchZipCodeLocation_try_def fetchZipCodeLocation_try_basic_def fetchSunData_def
  fetchSunData_basic_def useEffect_def zipToUse_def error_text_def ZIP_STORAGE_KEY_def
  new_Date_string_def Let_def

subsection \<open>Failures, the form, storage and startup\<close>

text \<open>
  C2. A reply whose status is not \<^verbatim>\<open>'OK'\<close> has to leave the schedule unset and set an
  error message before loading ends. Evaluated on the reply
  \<^verbatim>\<open>INVALID_REQUEST\<close>, from the initial state after a successful geolocation and from
  a submitted postal code: the schedule of the initial state stays unset and loading
  ends, but no error message is set, in either variant.
\<close>

theorem C2_non_ok_status_sets_no_error:
  "sun_fetch_fails (sunrise_sunset env_invalid_request 40.7128 (- 74.006))
   \<and> schedule (getLocationAndSunData env_invalid_request (initial Map.empty)) = None
   \<and> error (getLocationAndSunData env_invalid_request (initial Map.empty)) = None
   \<and> loading (getLocationAndSunData env_invalid_request (initial Map.empty)) = False
   \<and> useZipCode (getLocationAndSunData env_invalid_request (initial Map.empty)) = False
   \<and> schedule (getLocationAndSunData_basic env_invalid_request initial_basic) = None
   \<and> error (getLocationAndSunData_basic env_invalid_request initial_basic) = None
   \<and> loading (getLocationAndSunData_basic env_invalid_request initial_basic) = False
   \<and> error (handleZipCodeSubmit env_invalid_request None (showing ''10001'')) = None
   \<and> loading (handleZipCodeSubmit env_invalid_request None (showing ''10001'')) = False
   \<and> error (handleZipCodeSubmit_basic env_invalid_request (showing_basic ''10001'')) = None
   \<and> loading (handleZipCodeSubmit_basic env_invalid_request (showing_basic ''10001'')) = False"
  by (simp add: sample_defs handler_defs sun_fetch_fails_def)

text \<open>
  C3. A fetch cycle that fails leaves the schedule as it was: when the postal-code lookup
  throws or yields no place, when geolocation fails, and when the sun-data fetch throws
  or answers with a status other than \<^verbatim>\<open>'OK'\<close>. After any submission the schedule is
  the previous one or a whole derived schedule, in both variants.
\<close>

theorem C3_failed_cycle_keeps_schedule:
  "(zip_lookup_fails (zippopotam env (zipToUse ov (zipCode v)))
      \<or> (\<forall>lat lng. sun_fetch_fails (sunrise_sunset env lat lng))
     \<longrightarrow> schedule (handleZipCodeSubmit env ov v) = schedule v)
   \<and> (zip_lookup_fails (zippopotam env (zipCode vb))
      \<or> (\<forall>lat lng. sun_fetch_fails (sunrise_sunset env lat lng))
     \<longrightarrow> schedule (handleZipCodeSubmit_basic env vb) = schedule vb)
   \<and> ((\<forall>lat lng. sun_fetch_fails (sunrise_sunset env lat lng))
      \<or> getCurrentPosition env = GeoDenied \<or> (\<exists>e. getCurrentPosition env = GeoThrows e)
     \<longrightarrow> schedule (getLocationAndSunData env v) = schedule v
       \<and> schedule (getLocationAndSunData_basic env vb) = schedule vb)
   \<and> (schedule (handleZipCodeSubmit env ov v) = schedule v
      \<or> (\<exists>a b. schedule (handleZipCodeSubmit env ov v) = Some (deriveSchedule a b)))
   \<and> (schedule (handleZipCodeSubmit_basic env vb) = schedule vb
      \<or> (\<exists>a b. schedule (handleZipCodeSubmit_basic env vb) = Some (deriveSchedule_basic a b)))"
proof (intro conjI impI)
  assume "zip_lookup_fails (zippopotam env (zipToUse ov (zipCode v)))
      \<or> (\<forall>lat lng. sun_fetch_fails (sunrise_sunset env lat lng))"
  then show "schedule (handleZipCodeSubmit env ov v) = schedule v"
    by (auto simp add: handleZipCodeSubmit_zip_fails handleZipCodeSubmit_sun_fails)
next
  assume "zip_lookup_fails (zippopotam env (zipCode vb))
      \<or> (\<forall>lat lng. sun_fetch_fails (sunrise_sunset env lat lng))"
  then show "schedule (handleZipCodeSubmit_basic env vb) = schedule vb"
    by (auto simp add: handleZipCodeSubmit_basic_zip_fails handleZipCodeSubmit_basic_sun_fails)
next
  assume a: "(\<forall>lat lng. sun_fetch_fails (sunrise_sunset env lat lng))
      \<or> getCurrentPosition env = GeoDenied \<or> (\<exists>e. getCurrentPosition env = GeoThrows e)"
  from a show "schedule (getLocationAndSunData env v) = schedule v"
    by (rule getLocationAndSunData_fails)
  from a show "schedule (getLocationAndSunData_basic env vb) = schedule vb"
    by (rule getLocationAndSunData_basic_fails)
next
  show "schedule (handleZipCodeSubmit env ov v) = schedule v
      \<or> (\<exists>a b. schedule (handleZipCodeSubmit env ov v) = Some (deriveSchedule a b))"
    by (rule handleZipCodeSubmit_schedule_cases)
next
  show "schedule (handleZipCodeSubmit_basic env vb) = schedule vb
      \<or> (\<exists>a b. schedule (handleZipCodeSubmit_basic env vb) = Some (deriveSchedule_basic a b))"
    by (rule handleZipCodeSubmit_basic_schedule_cases)
qed

text \<open>
  A schedule is on screen; the postal-code service, then the sun service, cannot be
  reached.
\<close>

theorem C3_failed_cycle_keeps_schedule_witness:
  "zip_lookup_fails (zippopotam env_zip_down (zipToUse None (zipCode (showing ''10001''))))
   \<and> (\<forall>lat lng. sun_fetch_fails (sunrise_sunset env_sun_down lat lng))
   \<and> schedule (showing ''10001'') \<noteq> None
   \<and> schedule (handleZipCodeSubmit env_zip_down None (showing ''10001''))
       = schedule (showing ''10001'')
   \<and> schedule (handleZipCodeSubmit_basic env_zip_down (showing_basic ''10001''))
       = schedule (showing_basic ''10001'')
   \<and> schedule (handleZipCodeSubmit env_sun_down None (showing ''10001''))
       = schedule (showing ''10001'')
   \<and> schedule (getLocationAndSunData env_sun_down (showing ''10001''))
       = schedule (showing ''10001'')
   \<and> schedule (getLocationAndSunData_basic env_sun_down (showing_basic ''10001''))
       = schedule (showing_basic ''10001'')"
proof -
  have z: "zip_lookup_fails (zippopotam env_zip_down (zipToUse None (zipCode (showing ''10001''))))"
    "zip_lookup_fails (zippopotam env_zip_down (zipCode (showing_basic ''10001'')))"
    by (simp_all add: env_zip_down_def zip_lookup_fails_def)
  have s: "\<forall>lat lng. sun_fetch_fails (sunrise_sunset env_sun_down lat lng)"
    by (simp add: env_sun_down_def sun_fetch_fails_def)
  have n: "schedule (showing ''10001'') \<noteq> None"
    by (simp add: showing_def)
  show ?thesis
    using z s n
      C3_failed_cycle_keeps_schedule [of env_zip_down None "showing ''10001''"
        "showing_basic ''10001''"]
      C3_failed_cycle_keeps_schedule [of env_sun_down None "showing ''10001''"
        "showing_basic ''10001''"]
    by simp
qed

text \<open>
  C5. The submit button is disabled exactly when loading is true or the entered postal
  code does not have 5 characters. A disabled button therefore means loading or a code
  that is not 5 digits, and for a code of 5 digits the button is disabled exactly while
  loading.
\<close>

theorem C5_submit_disabled:
  "(submit_disabled v \<longleftrightarrow> loading v \<or> length (zipCode v) \<noteq> 5)
   \<and> (submit_disabled v \<longrightarrow> loading v \<or> \<not> pattern_matches (zipCode v))
   \<and> (pattern_matches (zipCode v) \<longrightarrow> (submit_disabled v \<longleftrightarrow> loading v))"
  by (auto simp add: submit_disabled_def pattern_matches_def)

text \<open>The codes 10001 and 1000 while not loading.\<close>

theorem C5_submit_disabled_witness:
  "pattern_matches (zipCode (showing ''10001''))
   \<and> \<not> loading (showing ''10001'')
   \<and> \<not> submit_disabled (showing ''10001'')
   \<and> submit_disabled (showing ''1000'')
   \<and> \<not> pattern_matches (zipCode (showing ''1000''))"
proof -
  have p: "pattern_matches (zipCode (showing ''10001''))"
    by (simp add: showing_def pattern_matches_def digit_def)
  have l: "\<not> loading (showing ''10001'')" "\<not> loading (showing ''1000'')"
    "length (zipCode (showing ''1000'')) \<noteq> 5"
    by (simp_all add: showing_def)
  show ?thesis
    using p l C5_submit_disabled [of "showing ''10001''"] C5_submit_disabled [of "showing ''1000''"]
    by (simp add: showing_def)
qed

text \<open>
  The button is enabled for the five letters \<^verbatim>\<open>abcde\<close> while not loading: disabling
  does not test for digits.
\<close>

theorem C5_counterexample:
  "\<not> (submit_disabled (showing ''abcde'')
       \<longleftrightarrow> (\<not> pattern_matches (zipCode (showing ''abcde'')) \<or> loading (showing ''abcde'')))"
  by (simp add: submit_disabled_def pattern_matches_def digit_def showing_def)

text \<open>
  C6. In the persisted variant a submission whose lookup yields a place, whose sun-data
  fetch answers \<^verbatim>\<open>'OK'\<close> and whose write the storage accepts stores the submitted code
  under \<^verbatim>\<open>ZIP_STORAGE_KEY\<close>, the constant \<^verbatim>\<open>'lastUsedZipCode'\<close>, and changes no other
  key. Storage is unchanged when the lookup fails, when the lookup yields a place but the
  sun-data fetch throws, and when the storage rejects the write, whose error message is
  then shown.
\<close>

theorem C6_saved_after_full_success:
  "(zippopotam env (zipToUse ov (zipCode v)) = ZipJson (Some (p # ps))
      \<and> sunrise_sunset env (parseFloat env (latitude p)) (parseFloat env (longitude p))
          = SunJson ''OK'' r
      \<and> setItem env ZIP_STORAGE_KEY (zipToUse ov (zipCode v)) = None
     \<longrightarrow> localStorage (handleZipCodeSubmit env ov v)
          = (localStorage v)(ZIP_STORAGE_KEY \<mapsto> zipToUse ov (zipCode v)))
   \<and> (zip_lookup_fails (zippopotam env (zipToUse ov (zipCode v)))
     \<longrightarrow> localStorage (handleZipCodeSubmit env ov v) = localStorage v)
   \<and> (zippopotam env (zipToUse ov (zipCode v)) = ZipJson (Some (p # ps))
      \<and> sunrise_sunset env (parseFloat env (latitude p)) (parseFloat env (longitude p))
          = SunFails e
     \<longrightarrow> localStorage (handleZipCodeSubmit env ov v) = localStorage v)
   \<and> (zippopotam env (zipToUse ov (zipCode v)) = ZipJson (Some (p # ps))
      \<and> sunrise_sunset env (parseFloat env (latitude p)) (parseFloat env (longitude p))
          = SunJson ''OK'' r
      \<and> setItem env ZIP_STORAGE_KEY (zipToUse ov (zipCode v)) = Some err
     \<longrightarrow> localStorage (handleZipCodeSubmit env ov v) = localStorage v
       \<and> error (handleZipCodeSubmit env ov v) = Some (error_text err))
   \<and> ZIP_STORAGE_KEY = ''lastUsedZipCode''"
proof (intro conjI impI)
  assume "zippopotam env (zipToUse ov (zipCode v)) = ZipJson (Some (p # ps))
      \<and> sunrise_sunset env (parseFloat env (latitude p)) (parseFloat env (longitude p))
          = SunJson ''OK'' r
      \<and> setItem env ZIP_STORAGE_KEY (zipToUse ov (zipCode v)) = None"
  then show "localStorage (handleZipCodeSubmit env ov v)
      = (localStorage v)(ZIP_STORAGE_KEY \<mapsto> zipToUse ov (zipCode v))"
    by (simp add: handleZipCodeSubmit_saves)
next
  assume "zip_lookup_fails (zippopotam env (zipToUse ov (zipCode v)))"
  then show "localStorage (handleZipCodeSubmit env ov v) = localStorage v"
    by (simp add: handleZipCodeSubmit_zip_fails)
next
  assume "zippopotam env (zipToUse ov (zipCode v)) = ZipJson (Some (p # ps))
      \<and> sunrise_sunset env (parseFloat env (latitude p)) (parseFloat env (longitude p))
          = SunFails e"
  then show "localStorage (handleZipCodeSubmit env ov v) = localStorage v"
    by (simp add: handleZipCodeSubmit_sun_throws)
next
  assume a: "zippopotam env (zipToUse ov (zipCode v)) = ZipJson (Some (p # ps))
      \<and> sunrise_sunset env (parseFloat env (latitude p)) (parseFloat env (longitude p))
          = SunJson ''OK'' r
      \<and> setItem env ZIP_STORAGE_KEY (zipToUse ov (zipCode v)) = Some err"
  from a show "localStorage (handleZipCodeSubmit env ov v) = localStorage v"
    by (simp add: handleZipCodeSubmit_write_rejected)
  from a show "error (handleZipCodeSubmit env ov v) = Some (error_text err)"
    by (simp add: handleZipCodeSubmit_write_rejected)
next
  show "ZIP_STORAGE_KEY = ''lastUsedZipCode''"
    by (simp add: ZIP_STORAGE_KEY_def)
qed

text \<open>
  The code 10001 resolves and is stored; the code 99999 does not resolve; a full storage
  rejects the code 10001 and its message is shown.
\<close>

theorem C6_saved_after_full_success_witness:
  "zippopotam env_ok (zipToUse None (zipCode (showing ''10001''))) = ZipJson (Some [new_york])
   \<and> sunrise_sunset env_ok (parseFloat env_ok (latitude new_york))
        (parseFloat env_ok (longitude new_york))
       = SunJson ''OK'' \<lparr> results_sunrise = ''2026-11-02T11:12:00+00:00'',
                          results_sunset = ''2026-11-02T21:47:00+00:00'' \<rparr>
   \<and> setItem env_ok ZIP_STORAGE_KEY (zipToUse None (zipCode (showing ''10001''))) = None
   \<and> localStorage (showing ''10001'') ZIP_STORAGE_KEY = None
   \<and> localStorage (handleZipCodeSubmit env_ok None (showing ''10001'')) ZIP_STORAGE_KEY
       = Some ''10001''
   \<and> zip_lookup_fails (zippopotam env_ok (zipToUse None (zipCode (showing ''99999''))))
   \<and> localStorage (handleZipCodeSubmit env_ok None (showing ''99999'')) ZIP_STORAGE_KEY = None
   \<and> setItem env_storage_full ZIP_STORAGE_KEY (zipToUse None (zipCode (showing ''10001'')))
       = Some (Error ''The quota has been exceeded.'')
   \<and> localStorage (handleZipCodeSubmit env_storage_full None (showing ''10001''))
        ZIP_STORAGE_KEY = None
   \<and> error (handleZipCodeSubmit env_storage_full None (showing ''10001''))
       = Some ''The quota has been exceeded.''"
proof -
  let ?r = "\<lparr> results_sunrise = ''2026-11-02T11:12:00+00:00'',
              results_sunset = ''2026-11-02T21:47:00+00:00'' \<rparr>"
  have z: "zippopotam env_ok (zipToUse None (zipCode (showing ''10001''))) = ZipJson (Some [new_york])"
    "zippopotam env_storage_full (zipToUse None (zipCode (showing ''10001'')))
       = ZipJson (Some [new_york])"
    by (simp_all add: env_ok_def env_storage_full_def sample_zippopotam_def zipToUse_def
        showing_def)
  have s: "sunrise_sunset env_ok (parseFloat env_ok (latitude new_york))
        (parseFloat env_ok (longitude new_york)) = SunJson ''OK'' ?r"
    "sunrise_sunset env_storage_full (parseFloat env_storage_full (latitude new_york))
        (parseFloat env_storage_full (longitude new_york)) = SunJson ''OK'' ?r"
    by (simp_all add: env_ok_def env_storage_full_def)
  have w: "setItem env_ok ZIP_STORAGE_KEY (zipToUse None (zipCode (showing ''10001''))) = None"
    "setItem env_storage_full ZIP_STORAGE_KEY (zipToUse None (zipCode (showing ''10001'')))
       = Some (Error ''The quota has been exceeded.'')"
    by (simp_all add: env_ok_def env_storage_full_def)
  have f: "zip_lookup_fails (zippopotam env_ok (zipToUse None (zipCode (showing ''99999''))))"
    by (simp add: env_ok_def sample_zippopotam_def zipToUse_def showing_def zip_lookup_fails_def)
  have e: "localStorage (showing ''10001'') ZIP_STORAGE_KEY = None"
    "localStorage (showing ''99999'') ZIP_STORAGE_KEY = None"
    "zipToUse None (zipCode (showing ''10001'')) = ''10001''"
    by (simp_all add: showing_def zipToUse_def)
  show ?thesis
    using z s w f e
      C6_saved_after_full_success [where env = env_ok and ov = None
        and v = "showing ''10001''" and p = new_york and ps = "[]" and r = ?r]
      C6_saved_after_full_success [where env = env_ok and ov = None
        and v = "showing ''99999''"]
      C6_saved_after_full_success [where env = env_storage_full and ov = None
        and v = "showing ''10001''" and p = new_york and ps = "[]" and r = ?r
        and err = "Error ''The quota has been exceeded.''"]
    by (simp add: error_text_def)
qed

text \<open>
  The lookup of 10001 yields coordinates, the sun service cannot be reached, and the code
  is not stored.
\<close>

theorem C6_counterexample:
  "fst (fetchZipCodeLocation env_sun_down ''10001'' ((showing ''10001'')\<lparr> loading := True \<rparr>))
     = Inr (40.7128, - 74.006, ''New York City, New York'')
   \<and> zipToUse None (zipCode (showing ''10001'')) = ''10001''
   \<and> localStorage (handleZipCodeSubmit env_sun_down None (showing ''10001'')) ZIP_STORAGE_KEY
       = None"
  by (simp add: sample_defs handler_defs)

text \<open>
  C7. On startup of the persisted variant with a saved, non-empty code in storage, the
  effect is the submission of that code: the first request is the postal-code lookup of
  the saved code and no geolocation request is sent. With no saved code the first
  request is the geolocation request.
\<close>

theorem C7_startup:
  "(store ZIP_STORAGE_KEY = Some z \<and> z \<noteq> []
     \<longrightarrow> useEffect env (initial store)
          = handleZipCodeSubmit env (Some z) ((initial store)\<lparr> zipCode := z, useZipCode := True \<rparr>)
       \<and> GeoRequest \<notin> set (requests (useEffect env (initial store)))
       \<and> take 1 (requests (useEffect env (initial store))) = [ZipRequest z])
   \<and> (store ZIP_STORAGE_KEY = None
     \<longrightarrow> take 1 (requests (useEffect env (initial store))) = [GeoRequest])"
proof (intro conjI impI)
  assume a: "store ZIP_STORAGE_KEY = Some z \<and> z \<noteq> []"
  let ?v = "(initial store)\<lparr> zipCode := z, useZipCode := True \<rparr>"
  from a show eq: "useEffect env (initial store) = handleZipCodeSubmit env (Some z) ?v"
    by (simp add: useEffect_def initial_def)
  from a have z: "zipToUse (Some z) (zipCode ?v) = z"
    by (simp add: zipToUse_def)
  from handleZipCodeSubmit_requests [of env "Some z" ?v] obtain rest
    where r: "requests (handleZipCodeSubmit env (Some z) ?v) = requests ?v @ ZipRequest z # rest"
      and g: "GeoRequest \<notin> set rest"
    unfolding z by blast
  from r have r': "requests (useEffect env (initial store)) = ZipRequest z # rest"
    unfolding eq by (simp add: initial_def)
  from g show "GeoRequest \<notin> set (requests (useEffect env (initial store)))"
    unfolding r' by simp
  show "take 1 (requests (useEffect env (initial store))) = [ZipRequest z]"
    unfolding r' by simp
next
  assume a: "store ZIP_STORAGE_KEY = None"
  then have eq: "useEffect env (initial store) = getLocationAndSunData env (initial store)"
    by (simp add: useEffect_def initial_def)
  from getLocationAndSunData_requests [of env "initial store"] obtain rest
    where r: "requests (getLocationAndSunData env (initial store))
        = requests (initial store) @ GeoRequest # rest"
    by blast
  from r have r': "requests (useEffect env (initial store)) = GeoRequest # rest"
    unfolding eq by (simp add: initial_def)
  show "take 1 (requests (useEffect env (initial store))) = [GeoRequest]"
    unfolding r' by simp
qed

text \<open>Startup with 10001 saved, and startup with empty storage.\<close>

theorem C7_startup_witness:
  "[ZIP_STORAGE_KEY \<mapsto> ''10001''] ZIP_STORAGE_KEY = Some ''10001'' \<and> ''10001'' \<noteq> []
   \<and> GeoRequest \<notin> set (requests (useEffect env_ok (initial [ZIP_STORAGE_KEY \<mapsto> ''10001''])))
   \<and> take 1 (requests (useEffect env_ok (initial [ZIP_STORAGE_KEY \<mapsto> ''10001''])))
       = [ZipRequest ''10001'']
   \<and> (Map.empty :: string \<rightharpoonup> string) ZIP_STORAGE_KEY = None
   \<and> take 1 (requests (useEffect env_ok (initial Map.empty))) = [GeoRequest]"
proof -
  have a: "[ZIP_STORAGE_KEY \<mapsto> ''10001''] ZIP_STORAGE_KEY = Some ''10001''"
    and b: "''10001'' \<noteq> []"
    and c: "(Map.empty :: string \<rightharpoonup> string) ZIP_STORAGE_KEY = None"
    by simp_all
  show ?thesis
    using a b c
      C7_startup [where store = "[ZIP_STORAGE_KEY \<mapsto> ''10001'']" and z = "''10001''"
        and env = env_ok]
      C7_startup [where store = Map.empty and z = "''10001''" and env = env_ok]
    by blast
qed

text \<open>
  C10. Every failure of the postal-code lookup, whether the request or the parsing of the
  reply throws or the reply has no place, is reported by the one message
  \<^verbatim>\<open>Invalid zip code. Please try again.\<close>, in both variants.
\<close>

theorem C10_lookup_failure_message:
  "(zip_lookup_fails (zippopotam env z)
     \<longrightarrow> fst (fetchZipCodeLocation env z v) = Inl (Error ''Invalid zip code. Please try again.'')
       \<and> fst (fetchZipCodeLocation_basic env z vb)
           = Inl (Error ''Invalid zip code. Please try again.''))
   \<and> (zip_lookup_fails (zippopotam env (zipToUse ov (zipCode v)))
     \<longrightarrow> error (handleZipCodeSubmit env ov v) = Some ''Invalid zip code. Please try again.'')
   \<and> (zip_lookup_fails (zippopotam env (zipCode vb))
     \<longrightarrow> error (handleZipCodeSubmit_basic env vb) = Some ''Invalid zip code. Please try again.'')"
  by (simp add: fetchZipCodeLocation_fails fetchZipCodeLocation_basic_fails
      handleZipCodeSubmit_zip_fails handleZipCodeSubmit_basic_zip_fails)

text \<open>
  The postal-code service cannot be reached: the network error is shown as an invalid
  postal code. So is an unknown code.
\<close>

theorem C10_lookup_failure_message_witness:
  "zippopotam env_zip_down ''10001'' = ZipFails (Error ''Failed to fetch'')
   \<and> zip_lookup_fails (zippopotam env_zip_down ''10001'')
   \<and> zip_lookup_fails (ZipJson None) \<and> zip_lookup_fails (ZipJson (Some []))
   \<and> error (handleZipCodeSubmit env_zip_down None (showing ''10001''))
       = Some ''Invalid zip code. Please try again.''
   \<and> error (handleZipCodeSubmit_basic env_zip_down (showing_basic ''10001''))
       = Some ''Invalid zip code. Please try again.''
   \<and> error (handleZipCodeSubmit env_ok None (showing ''99999''))
       = Some ''Invalid zip code. Please try again.''"
proof -
  have f: "zippopotam env_zip_down ''10001'' = ZipFails (Error ''Failed to fetch'')"
    "zip_lookup_fails (zippopotam env_zip_down ''10001'')"
    "zip_lookup_fails (ZipJson None)" "zip_lookup_fails (ZipJson (Some []))"
    "zip_lookup_fails (zippopotam env_zip_down (zipToUse None (zipCode (showing ''10001''))))"
    "zip_lookup_fails (zippopotam env_zip_down (zipCode (showing_basic ''10001'')))"
    "zip_lookup_fails (zippopotam env_ok (zipToUse None (zipCode (showing ''99999''))))"
    by (simp_all add: env_zip_down_def env_ok_def sample_zippopotam_def zip_lookup_fails_def
        zipToUse_def showing_def)
  show ?thesis
    using f
      C10_lookup_failure_message [where env = env_zip_down and z = "''10001''" and ov = None
        and v = "showing ''10001''" and vb = "showing_basic ''10001''"]
      C10_lookup_failure_message [where env = env_ok and z = "''99999''" and ov = None
        and v = "showing ''99999''" and vb = "showing_basic ''10001''"]
    by simp
qed

end
